theory Spec2Isabelle
  imports Main
begin

section \<open>Values exchanged with the framework and the vendor\<close>

text \<open>
  The adapter \<^verbatim>\<open>SambaAdapter.generate_content_async\<close> of
  \<^verbatim>\<open>multi_tool_agent/agent.py\<close> (the copy in \<^verbatim>\<open>2_tool_agent/tool_agent/agent.py\<close>
  is the same text) translates a chat request of the agent framework into one
  chat-completion call of the vendor client and translates the completion back.
  The classes of the framework (\<^verbatim>\<open>LlmRequest\<close>, \<^verbatim>\<open>types.Content\<close>,
  \<^verbatim>\<open>types.Part\<close>, \<^verbatim>\<open>types.FunctionCall\<close>, \<^verbatim>\<open>LlmResponse\<close>), the vendor
  client and \<^verbatim>\<open>json.loads\<close> are libraries: the records below carry the fields
  the adapter reads or writes, typed as the specification's data model types them.
\<close>

text \<open>A decoded JSON value, as \<^verbatim>\<open>json.loads\<close> returns it; \<open>JObj\<close> is a mapping.\<close>

datatype json =
    JNull
  | JBool bool
  | JInt int
  | JStr string
  | JArr "json list"
  | JObj "(string \<times> json) list"

text \<open>
  An attribute of a duck-typed vendor object, as \<^verbatim>\<open>getattr(obj, name, default)\<close>
  sees it: missing, present with the value \<^verbatim>\<open>None\<close>, or present with a value.
  A Python value that may be \<^verbatim>\<open>None\<close> is an \<open>option\<close>.
\<close>

datatype 'a attr = Absent | PyNone | Present 'a

fun getattr :: "'a attr \<Rightarrow> 'a option \<Rightarrow> 'a option" where
  "getattr Absent dflt = dflt"
| "getattr PyNone dflt = None"
| "getattr (Present v) dflt = Some v"

fun hasattr :: "'a attr \<Rightarrow> bool" where
  "hasattr Absent = False"
| "hasattr PyNone = True"
| "hasattr (Present v) = True"

text \<open>\<^verbatim>\<open>x or []\<close> for a list that may be \<^verbatim>\<open>None\<close>.\<close>

fun or_empty :: "'a list option \<Rightarrow> 'a list" where
  "or_empty None = []"
| "or_empty (Some xs) = xs"

text \<open>Truth value of an optional string: \<^verbatim>\<open>None\<close> and \<^verbatim>\<open>""\<close> are false.\<close>

fun truthy :: "string option \<Rightarrow> bool" where
  "truthy None = False"
| "truthy (Some t) = (t \<noteq> [])"

subsection \<open>Framework side\<close>

text \<open>
  A part carries a text, a function call, or neither (\<^verbatim>\<open>part.text\<close> is
  \<^verbatim>\<open>None\<close> on a part without text). A turn is a role and a sequence of parts.
  A request has its turns in \<open>contents\<close> and an optional sequence of tools; a
  tool lists its function declarations.
\<close>

record function_call =
  fc_name :: "string option"
  fc_args :: json

record part =
  part_text :: "string option"
  part_function_call :: "function_call option"

record content =
  role :: string
  parts :: "part list"

record function_declaration =
  name :: string
  description :: string
  parameters :: json

record tool =
  function_declarations :: "function_declaration list"

record llm_request =
  contents :: "content list"
  tools :: "tool list option"

record llm_response =
  content :: content
  partial :: bool

text \<open>
  \<^verbatim>\<open>types.Part.from_text(text=t)\<close>, its fallback \<^verbatim>\<open>types.Part(text=t)\<close>, and
  \<^verbatim>\<open>types.Part(function_call=types.FunctionCall(name=n, args=a))\<close>: the
  parts keep the values they are given.
\<close>

definition Part_from_text :: "string \<Rightarrow> part" where
  "Part_from_text t = \<lparr>part_text = Some t, part_function_call = None\<rparr>"

definition Part_function_call :: "string option \<Rightarrow> json \<Rightarrow> part" where
  "Part_function_call n a =
     \<lparr>part_text = None, part_function_call = Some \<lparr>fc_name = n, fc_args = a\<rparr>\<rparr>"

text \<open>
  The parameter schema of a declaration is represented by the mapping that its
  \<^verbatim>\<open>to_dict()\<close> returns.
\<close>

definition to_dict :: "json \<Rightarrow> json" where
  "to_dict schema = schema"

text \<open>
  What the adapters use of the libraries and cannot see inside: \<open>loads\<close> is
  \<^verbatim>\<open>json.loads\<close> on a string (\<open>Inl\<close> carries the text of the exception it
  raises), and \<open>function_call_error\<close> is the check that
  \<^verbatim>\<open>types.FunctionCall(name=n, args=a)\<close> makes of its arguments, whose value
  \<open>a\<close> is whatever the caller computed (\<open>Some\<close> carries the text of the
  exception, \<open>None\<close> means the object is built).
\<close>

record library =
  loads :: "string \<Rightarrow> string + json"
  function_call_error :: "string option \<Rightarrow> json \<Rightarrow> string option"

subsection \<open>Vendor side\<close>

text \<open>The dictionaries the adapter builds for the vendor call.\<close>

record chat_message =
  msg_role :: string
  msg_content :: string

record api_function =
  af_name :: string
  af_description :: string
  af_parameters :: json

record api_tool =
  at_type :: string
  at_function :: api_function

text \<open>
  The keyword arguments of \<^verbatim>\<open>chat.completions.create\<close>; \<open>kw_tools\<close> and
  \<open>kw_tool_choice\<close> are \<open>None\<close> when the keyword is not passed.
\<close>

record payload =
  kw_model :: string
  kw_messages :: "chat_message list"
  kw_tools :: "api_tool list option"
  kw_tool_choice :: "string option"

text \<open>The completion object returned by the vendor, read with \<^verbatim>\<open>getattr\<close>.\<close>

record function_obj =
  fo_name :: "string attr"
  fo_arguments :: "string attr"

record tool_call =
  tc_function :: "function_obj attr"

record vendor_message =
  vm_content :: "string attr"
  vm_tool_calls :: "tool_call list attr"

record choice =
  ch_message :: "vendor_message attr"

record completion =
  choices :: "choice list attr"

subsection \<open>Exceptions, log records, the adapter and its frame\<close>

datatype exception =
    ValueError string
  | IndexError string
  | ClientError string

datatype log_record =
    LogException string exception
  | LogError string

text \<open>
  \<open>model_id\<close> is \<^verbatim>\<open>self._model\<close>; \<open>client\<close> is \<^verbatim>\<open>self._client\<close>, seen as what
  \<^verbatim>\<open>chat.completions.create\<close> does with the keyword arguments: it raises or
  returns a completion. What it raises is an \<^verbatim>\<open>Exception\<close>, which the handler
  \<^verbatim>\<open>except Exception\<close> of the method catches; the worker thread that runs the
  call, interrupts and the cancellation of the task are outside this model.
\<close>

record adapter =
  model_id :: string
  client :: "payload \<Rightarrow> exception + completion"

text \<open>
  The objects one invocation can touch: the two objects of the caller
  (\<open>self\<close> and \<open>llm_request\<close>), the three lists the function creates and appends
  to (\<open>l_messages\<close>, \<open>l_api_tools\<close>, \<open>l_parts\<close>), the calls made on the vendor
  client and the records written to the logger, both in order.
\<close>

record state =
  self :: adapter
  request :: llm_request
  l_messages :: "chat_message list"
  l_api_tools :: "api_tool list"
  l_parts :: "part list"
  vendor_calls :: "payload list"
  log_records :: "log_record list"

text \<open>
  What the asynchronous generator did: the state it left, the responses it
  yielded, and the exception that ended it, if any.
\<close>

record outcome =
  final :: state
  yielded :: "llm_response list"
  raised :: "exception option"

definition enter :: "adapter \<Rightarrow> llm_request \<Rightarrow> state" where
  "enter slf req =
     \<lparr>self = slf, request = req, l_messages = [], l_api_tools = [], l_parts = [],
      vendor_calls = [], log_records = []\<rparr>"

section \<open>The adapter of multi\_tool\_agent and tool\_agent\<close>

text \<open>
  \<^verbatim>\<open>content_text = "".join(part.text for part in c.parts if part.text)\<close>
\<close>

definition content_text_of :: "content \<Rightarrow> string" where
  "content_text_of c = concat [the (part_text p). p \<leftarrow> parts c, truthy (part_text p)]"

text \<open>\<^verbatim>\<open>for c in llm_request.contents: messages.append({"role": ..., "content": ...})\<close>\<close>

fun messages_loop :: "content list \<Rightarrow> state \<Rightarrow> state" where
  "messages_loop [] s = s"
| "messages_loop (c # cs) s =
     messages_loop cs
       (s\<lparr>l_messages := l_messages s @ [\<lparr>msg_role = role c, msg_content = content_text_of c\<rparr>]\<rparr>)"

text \<open>
  \<^verbatim>\<open>for tool in llm_request.tools: api_tools.append({...})\<close>. Each entry reads
  \<^verbatim>\<open>tool.function_declarations[0]\<close>, which raises \<^verbatim>\<open>IndexError\<close> on an empty
  list; nothing catches it.
\<close>

fun api_tools_loop :: "tool list \<Rightarrow> state \<Rightarrow> state \<times> exception option" where
  "api_tools_loop [] s = (s, None)"
| "api_tools_loop (t # ts) s =
     (case function_declarations t of
        [] \<Rightarrow> (s, Some (IndexError ''list index out of range''))
      | fd # _ \<Rightarrow>
          api_tools_loop ts
            (s\<lparr>l_api_tools := l_api_tools s @
                 [\<lparr>at_type = ''function'',
                   at_function = \<lparr>af_name = name fd, af_description = description fd,
                                  af_parameters = to_dict (parameters fd)\<rparr>\<rparr>]\<rparr>))"

text \<open>
  \<^verbatim>\<open>call_samba\<close>: the tools and the tool choice are passed only when
  \<^verbatim>\<open>api_tools\<close> is non-empty. The call is recorded, then the client answers.
\<close>

definition call_samba_kwargs :: "state \<Rightarrow> payload" where
  "call_samba_kwargs s =
     (if l_api_tools s \<noteq> []
      then \<lparr>kw_model = model_id (self s), kw_messages = l_messages s,
            kw_tools = Some (l_api_tools s), kw_tool_choice = Some ''auto''\<rparr>
      else \<lparr>kw_model = model_id (self s), kw_messages = l_messages s,
            kw_tools = None, kw_tool_choice = None\<rparr>)"

definition call_samba :: "state \<Rightarrow> state \<times> (exception + completion)" where
  "call_samba s =
     (let kw = call_samba_kwargs s
      in (s\<lparr>vendor_calls := vendor_calls s @ [kw]\<rparr>, client (self s) kw))"

text \<open>
  \<^verbatim>\<open>json.loads(fn_args_str)\<close>: on \<^verbatim>\<open>None\<close> the library raises a
  \<^verbatim>\<open>TypeError\<close> before decoding; a string goes to the decoder.
\<close>

definition json_loads :: "library \<Rightarrow> string option \<Rightarrow> string + json" where
  "json_loads lib v =
     (case v of
        None \<Rightarrow> Inl ''the JSON object must be str, bytes or bytearray, not NoneType''
      | Some str \<Rightarrow> loads lib str)"

text \<open>
  The body of \<^verbatim>\<open>for tc in tool_calls\<close>: everything raised inside the
  \<^verbatim>\<open>try\<close> is logged with \<^verbatim>\<open>LOG.error\<close> and the loop continues.
\<close>

definition tool_call_step :: "library \<Rightarrow> tool_call \<Rightarrow> state \<Rightarrow> state" where
  "tool_call_step lib tc s =
     (case getattr (tc_function tc) None of
        None \<Rightarrow> s
      | Some f \<Rightarrow>
          (let fn_name = getattr (fo_name f) (Some '''');
               fn_args_str = getattr (fo_arguments f) (Some ''{}'')
           in case json_loads lib fn_args_str of
                Inl e \<Rightarrow>
                  s\<lparr>log_records := log_records s @ [LogError (''Error parsing tool call: '' @ e)]\<rparr>
              | Inr fn_args \<Rightarrow>
                  (case function_call_error lib fn_name fn_args of
                     Some e \<Rightarrow>
                       s\<lparr>log_records := log_records s @
                            [LogError (''Error parsing tool call: '' @ e)]\<rparr>
                   | None \<Rightarrow>
                       s\<lparr>l_parts := l_parts s @ [Part_function_call fn_name fn_args]\<rparr>)))"

fun tool_calls_loop :: "library \<Rightarrow> tool_call list \<Rightarrow> state \<Rightarrow> state" where
  "tool_calls_loop lib [] s = s"
| "tool_calls_loop lib (tc # tcs) s = tool_calls_loop lib tcs (tool_call_step lib tc s)"

text \<open>
  The body of \<^verbatim>\<open>for choice in getattr(completion, "choices", []) or []\<close>. The
  handler around \<^verbatim>\<open>Part.from_text\<close> builds the same part with \<^verbatim>\<open>types.Part\<close>.
\<close>

definition choice_step :: "library \<Rightarrow> choice \<Rightarrow> state \<Rightarrow> state" where
  "choice_step lib ch s =
     (case getattr (ch_message ch) None of
        None \<Rightarrow> s
      | Some msg \<Rightarrow>
          (let content_text = getattr (vm_content msg) None;
               s1 = (if truthy content_text
                     then s\<lparr>l_parts := l_parts s @ [Part_from_text (the content_text)]\<rparr>
                     else s)
           in if hasattr (vm_tool_calls msg)
              then tool_calls_loop lib (or_empty (getattr (vm_tool_calls msg) (Some []))) s1
              else s1))"

fun choices_loop :: "library \<Rightarrow> choice list \<Rightarrow> state \<Rightarrow> state" where
  "choices_loop lib [] s = s"
| "choices_loop lib (ch # chs) s = choices_loop lib chs (choice_step lib ch s)"

text \<open>
  \<^verbatim>\<open>generate_content_async(self, llm_request, stream)\<close>. The \<^verbatim>\<open>stream\<close> flag
  is accepted and never read. The generator raises before it yields, or yields
  one response and ends.
\<close>

definition generate_content_async ::
  "library \<Rightarrow> adapter \<Rightarrow> llm_request \<Rightarrow> bool \<Rightarrow> outcome" where
  "generate_content_async lib slf llm_request stream =
     (let s0 = enter slf llm_request in
      if contents (request s0) = []
      then \<lparr>final = s0, yielded = [],
            raised = Some (ValueError ''LlmRequest must contain contents'')\<rparr>
      else
        let s1 = messages_loop (contents (request s0)) (s0\<lparr>l_messages := []\<rparr>);
            s1' = s1\<lparr>l_api_tools := []\<rparr>;
            (s2, err) = (case tools (request s1') of
                           None \<Rightarrow> (s1', None)
                         | Some [] \<Rightarrow> (s1', None)
                         | Some (t # ts) \<Rightarrow> api_tools_loop (t # ts) s1')
        in case err of
             Some e \<Rightarrow> \<lparr>final = s2, yielded = [], raised = Some e\<rparr>
           | None \<Rightarrow>
               (case call_samba s2 of
                  (s3, Inl e) \<Rightarrow>
                    \<lparr>final = s3\<lparr>log_records := log_records s3 @
                                  [LogException ''SambaNova call failed'' e]\<rparr>,
                     yielded = [], raised = Some e\<rparr>
                | (s3, Inr completion) \<Rightarrow>
                    (let s4 = choices_loop lib
                                (or_empty (getattr (choices completion) (Some [])))
                                (s3\<lparr>l_parts := []\<rparr>)
                     in \<lparr>final = s4,
                         yielded = [\<lparr>content = \<lparr>role = ''model'', parts = l_parts s4\<rparr>,
                                     partial = False\<rparr>],
                         raised = None\<rparr>)))"

section \<open>The adapter of greeting\_agent\<close>

text \<open>
  \<^verbatim>\<open>1_Basic_Agent/greeting_agent/agent.py\<close> has an earlier text of the same
  method. It converts no tools and passes only the model and the messages to
  the client. In its tool-call loop
  \<^verbatim>\<open>fn_args = getattr(function, "arguments", {})\<close> goes to
  \<^verbatim>\<open>types.FunctionCall\<close> as it is: \<^verbatim>\<open>json.loads\<close> is not called, and the
  handler is \<^verbatim>\<open>except Exception: continue\<close>, without a log record.
\<close>

definition greeting_call_samba :: "state \<Rightarrow> state \<times> (exception + completion)" where
  "greeting_call_samba s =
     (let kw = \<lparr>kw_model = model_id (self s), kw_messages = l_messages s,
                kw_tools = None, kw_tool_choice = None\<rparr>
      in (s\<lparr>vendor_calls := vendor_calls s @ [kw]\<rparr>, client (self s) kw))"

text \<open>
  \<^verbatim>\<open>getattr(function, "arguments", {})\<close> as a Python value: the empty mapping
  when the attribute is missing, \<^verbatim>\<open>None\<close>, or the string itself.
\<close>

definition greeting_fn_args :: "function_obj \<Rightarrow> json" where
  "greeting_fn_args f =
     (case fo_arguments f of
        Absent \<Rightarrow> JObj []
      | PyNone \<Rightarrow> JNull
      | Present str \<Rightarrow> JStr str)"

definition greeting_tool_call_step :: "library \<Rightarrow> tool_call \<Rightarrow> state \<Rightarrow> state" where
  "greeting_tool_call_step lib tc s =
     (case getattr (tc_function tc) None of
        None \<Rightarrow> s
      | Some f \<Rightarrow>
          (let fn_name = getattr (fo_name f) (Some '''');
               fn_args = greeting_fn_args f
           in case function_call_error lib fn_name fn_args of
                Some e \<Rightarrow> s
              | None \<Rightarrow> s\<lparr>l_parts := l_parts s @ [Part_function_call fn_name fn_args]\<rparr>))"

fun greeting_tool_calls_loop :: "library \<Rightarrow> tool_call list \<Rightarrow> state \<Rightarrow> state" where
  "greeting_tool_calls_loop lib [] s = s"
| "greeting_tool_calls_loop lib (tc # tcs) s =
     greeting_tool_calls_loop lib tcs (greeting_tool_call_step lib tc s)"

definition greeting_choice_step :: "library \<Rightarrow> choice \<Rightarrow> state \<Rightarrow> state" where
  "greeting_choice_step lib ch s =
     (case getattr (ch_message ch) None of
        None \<Rightarrow> s
      | Some msg \<Rightarrow>
          (let content_text = getattr (vm_content msg) None;
               s1 = (if truthy content_text
                     then s\<lparr>l_parts := l_parts s @ [Part_from_text (the content_text)]\<rparr>
                     else s)
           in if hasattr (vm_tool_calls msg)
              then greeting_tool_calls_loop lib
                     (or_empty (getattr (vm_tool_calls msg) (Some []))) s1
              else s1))"

fun greeting_choices_loop :: "library \<Rightarrow> choice list \<Rightarrow> state \<Rightarrow> state" where
  "greeting_choices_loop lib [] s = s"
| "greeting_choices_loop lib (ch # chs) s =
     greeting_choices_loop lib chs (greeting_choice_step lib ch s)"

definition greeting_generate_content_async ::
  "library \<Rightarrow> adapter \<Rightarrow> llm_request \<Rightarrow> bool \<Rightarrow> outcome" where
  "greeting_generate_content_async lib slf llm_request stream =
     (let s0 = enter slf llm_request in
      if contents (request s0) = []
      then \<lparr>final = s0, yielded = [],
            raised = Some (ValueError ''LlmRequest must contain contents'')\<rparr>
      else
        let s1 = messages_loop (contents (request s0)) (s0\<lparr>l_messages := []\<rparr>)
        in case greeting_call_samba s1 of
             (s3, Inl e) \<Rightarrow>
               \<lparr>final = s3\<lparr>log_records := log_records s3 @
                             [LogException ''SambaNova call failed'' e]\<rparr>,
                yielded = [], raised = Some e\<rparr>
           | (s3, Inr completion) \<Rightarrow>
               (let s4 = greeting_choices_loop lib
                           (or_empty (getattr (choices completion) (Some [])))
                           (s3\<lparr>l_parts := []\<rparr>)
                in \<lparr>final = s4,
                    yielded = [\<lparr>content = \<lparr>role = ''model'', parts = l_parts s4\<rparr>,
                                partial = False\<rparr>],
                    raised = None\<rparr>))"

section \<open>What the loops compute\<close>

text \<open>
  Closed descriptions of the lists the loops build, in the words of the
  specification; the lemmas of the next sections show that the loops compute
  them.
\<close>

text \<open>The text fragments of a turn, in order: the texts its parts carry.\<close>

definition text_fragments :: "content \<Rightarrow> string list" where
  "text_fragments c = List.map_filter part_text (parts c)"

definition flatten_turn :: "content \<Rightarrow> chat_message" where
  "flatten_turn c = \<lparr>msg_role = role c, msg_content = content_text_of c\<rparr>"

text \<open>The vendor's function-calling entry for one declared function.\<close>

definition api_tool_of :: "function_declaration \<Rightarrow> api_tool" where
  "api_tool_of fd =
     \<lparr>at_type = ''function'',
      at_function = \<lparr>af_name = name fd, af_description = description fd,
                     af_parameters = parameters fd\<rparr>\<rparr>"

text \<open>The tools supplied with a request: none when the field is \<^verbatim>\<open>None\<close>.\<close>

definition supplied_tools :: "llm_request \<Rightarrow> tool list" where
  "supplied_tools req = (case tools req of None \<Rightarrow> [] | Some ts \<Rightarrow> ts)"

definition has_declaration :: "tool \<Rightarrow> bool" where
  "has_declaration t = (function_declarations t \<noteq> [])"

definition converted_tools :: "llm_request \<Rightarrow> api_tool list" where
  "converted_tools req =
     map (\<lambda>t. api_tool_of (hd (function_declarations t))) (supplied_tools req)"

definition request_payload :: "adapter \<Rightarrow> llm_request \<Rightarrow> payload" where
  "request_payload slf req =
     \<lparr>kw_model = model_id slf,
      kw_messages = map flatten_turn (contents req),
      kw_tools = (if supplied_tools req = [] then None else Some (converted_tools req)),
      kw_tool_choice = (if supplied_tools req = [] then None else Some ''auto'')\<rparr>"

text \<open>The frame once both conversion loops have run, up to the first tool without a declaration.\<close>

definition after_conversion :: "adapter \<Rightarrow> llm_request \<Rightarrow> state" where
  "after_conversion slf req =
     (enter slf req)
       \<lparr>l_messages := map flatten_turn (contents req),
        l_api_tools := map (\<lambda>t. api_tool_of (hd (function_declarations t)))
                         (takeWhile has_declaration (supplied_tools req))\<rparr>"

text \<open>The part, or the log record, that one tool-call entry gives.\<close>

definition function_call_part :: "library \<Rightarrow> tool_call \<Rightarrow> part option" where
  "function_call_part lib tc =
     (case tc_function tc of
        Present f \<Rightarrow>
          (case json_loads lib (getattr (fo_arguments f) (Some ''{}'')) of
             Inl e \<Rightarrow> None
           | Inr a \<Rightarrow>
               (case function_call_error lib (getattr (fo_name f) (Some '''')) a of
                  Some e \<Rightarrow> None
                | None \<Rightarrow> Some (Part_function_call (getattr (fo_name f) (Some '''')) a)))
      | _ \<Rightarrow> None)"

definition tool_call_log :: "library \<Rightarrow> tool_call \<Rightarrow> log_record option" where
  "tool_call_log lib tc =
     (case tc_function tc of
        Present f \<Rightarrow>
          (case json_loads lib (getattr (fo_arguments f) (Some ''{}'')) of
             Inl e \<Rightarrow> Some (LogError (''Error parsing tool call: '' @ e))
           | Inr a \<Rightarrow>
               (case function_call_error lib (getattr (fo_name f) (Some '''')) a of
                  Some e \<Rightarrow> Some (LogError (''Error parsing tool call: '' @ e))
                | None \<Rightarrow> None))
      | _ \<Rightarrow> None)"

text \<open>The non-empty text content of a choice, and its tool-call entries.\<close>

definition choice_text :: "choice \<Rightarrow> string option" where
  "choice_text ch =
     (case ch_message ch of
        Present msg \<Rightarrow>
          (case vm_content msg of
             Present t \<Rightarrow> if t = [] then None else Some t
           | _ \<Rightarrow> None)
      | _ \<Rightarrow> None)"

definition tool_call_entries :: "choice \<Rightarrow> tool_call list" where
  "tool_call_entries ch =
     (case ch_message ch of
        Present msg \<Rightarrow> (case vm_tool_calls msg of Present tcs \<Rightarrow> tcs | _ \<Rightarrow> [])
      | _ \<Rightarrow> [])"

definition text_parts :: "choice \<Rightarrow> part list" where
  "text_parts ch = (case choice_text ch of Some t \<Rightarrow> [Part_from_text t] | None \<Rightarrow> [])"

definition choice_parts :: "library \<Rightarrow> choice \<Rightarrow> part list" where
  "choice_parts lib ch =
     text_parts ch @ List.map_filter (function_call_part lib) (tool_call_entries ch)"

definition choice_logs :: "library \<Rightarrow> choice \<Rightarrow> log_record list" where
  "choice_logs lib ch = List.map_filter (tool_call_log lib) (tool_call_entries ch)"

definition response_choices :: "completion \<Rightarrow> choice list" where
  "response_choices c = (case choices c of Present chs \<Rightarrow> chs | _ \<Rightarrow> [])"

text \<open>The same for the greeting agent, which consults no decoder and logs nothing.\<close>

definition greeting_function_call_part :: "library \<Rightarrow> tool_call \<Rightarrow> part option" where
  "greeting_function_call_part lib tc =
     (case tc_function tc of
        Present f \<Rightarrow>
          (case function_call_error lib (getattr (fo_name f) (Some '''')) (greeting_fn_args f) of
             Some e \<Rightarrow> None
           | None \<Rightarrow>
               Some (Part_function_call (getattr (fo_name f) (Some '''')) (greeting_fn_args f)))
      | _ \<Rightarrow> None)"

definition greeting_choice_parts :: "library \<Rightarrow> choice \<Rightarrow> part list" where
  "greeting_choice_parts lib ch =
     text_parts ch @ List.map_filter (greeting_function_call_part lib) (tool_call_entries ch)"

section \<open>Example data\<close>

text \<open>
  Concrete inputs on which the theorems below are instantiated. \<open>example_loads\<close>
  answers as \<^verbatim>\<open>json.loads\<close> does on the three argument strings of the
  examples, \<^verbatim>\<open>{}\<close>, \<^verbatim>\<open>{"city":"NY"}\<close> and \<^verbatim>\<open>{bad\<close>, and refuses every other
  string with the error of the last one; it stands for the decoder on these
  three strings only. \<open>keeping_lib\<close> has a \<^verbatim>\<open>FunctionCall\<close> that accepts every
  argument value, \<open>checking_lib\<close> one that accepts a mapping or \<^verbatim>\<open>None\<close> only.
\<close>

definition example_loads :: "string \<Rightarrow> string + json" where
  \<open>example_loads str =
     (if str = ''{}'' then Inr (JObj [])
      else if str = ''{"city":"NY"}'' then Inr (JObj [(''city'', JStr ''NY'')])
      else Inl ''Expecting property name enclosed in double quotes: line 1 column 2 (char 1)'')\<close>

definition keeping_lib :: library where
  "keeping_lib = \<lparr>loads = example_loads, function_call_error = (\<lambda>n a. None)\<rparr>"

definition checking_lib :: library where
  "checking_lib =
     \<lparr>loads = example_loads,
      function_call_error =
        (\<lambda>n a. case a of
                  JObj kvs \<Rightarrow> None
                | JNull \<Rightarrow> None
                | _ \<Rightarrow> Some ''Input should be a valid dictionary'')\<rparr>"

definition get_weather_tool :: tool where
  "get_weather_tool =
     \<lparr>function_declarations =
        [\<lparr>name = ''get_weather'',
          description = ''Retrieves the current weather report for a specified city.'',
          parameters =
            JObj [(''type'', JStr ''object''),
                  (''properties'', JObj [(''city'', JObj [(''type'', JStr ''string'')])])]\<rparr>,
         \<lparr>name = ''get_current_time'',
          description = ''Returns the current time in a specified city.'',
          parameters = JObj []\<rparr>]\<rparr>"

definition example_request :: llm_request where
  "example_request =
     \<lparr>contents =
        [\<lparr>role = ''user'',
          parts = [Part_from_text ''Weather in '', Part_from_text '''',
                   \<lparr>part_text = None, part_function_call = None\<rparr>, Part_from_text ''NY?'']\<rparr>,
         \<lparr>role = ''model'', parts = []\<rparr>],
      tools = Some [get_weather_tool]\<rparr>"

definition plain_request :: llm_request where
  "plain_request = \<lparr>contents = [\<lparr>role = ''user'', parts = [Part_from_text ''Hi'']\<rparr>], tools = None\<rparr>"

definition empty_request :: llm_request where
  "empty_request = \<lparr>contents = [], tools = Some [get_weather_tool]\<rparr>"

definition weather_call :: tool_call where
  \<open>weather_call =
     \<lparr>tc_function = Present \<lparr>fo_name = Present ''get_weather'',
                              fo_arguments = Present ''{"city":"NY"}''\<rparr>\<rparr>\<close>

definition malformed_call :: tool_call where
  "malformed_call =
     \<lparr>tc_function = Present \<lparr>fo_name = Present ''get_weather'',
                              fo_arguments = Present ''{bad''\<rparr>\<rparr>"

definition bare_call :: tool_call where
  "bare_call =
     \<lparr>tc_function = Present \<lparr>fo_name = Present ''get_current_time'',
                              fo_arguments = Absent\<rparr>\<rparr>"

definition example_completion :: completion where
  "example_completion =
     \<lparr>choices =
        Present [\<lparr>ch_message = Present \<lparr>vm_content = Present ''Hello'',
                                        vm_tool_calls =
                                          Present [weather_call, malformed_call, bare_call]\<rparr>\<rparr>,
                 \<lparr>ch_message = Absent\<rparr>,
                 \<lparr>ch_message = Present \<lparr>vm_content = PyNone, vm_tool_calls = Absent\<rparr>\<rparr>]\<rparr>"

definition empty_completion :: completion where
  "empty_completion = \<lparr>choices = Absent\<rparr>"

definition answering_adapter :: adapter where
  "answering_adapter =
     \<lparr>model_id = ''Meta-Llama-3.3-70B-Instruct'', client = (\<lambda>kw. Inr example_completion)\<rparr>"

definition silent_adapter :: adapter where
  "silent_adapter =
     \<lparr>model_id = ''Meta-Llama-3.3-70B-Instruct'', client = (\<lambda>kw. Inr empty_completion)\<rparr>"

definition failing_adapter :: adapter where
  "failing_adapter =
     \<lparr>model_id = ''Meta-Llama-3.3-70B-Instruct'',
      client = (\<lambda>kw. Inl (ClientError ''Connection error.''))\<rparr>"

definition two_calls_completion :: completion where
  "two_calls_completion =
     \<lparr>choices =
        Present [\<lparr>ch_message = Present \<lparr>vm_content = PyNone,
                                        vm_tool_calls =
                                          Present [weather_call, malformed_call]\<rparr>\<rparr>]\<rparr>"

definition two_calls_adapter :: adapter where
  "two_calls_adapter =
     \<lparr>model_id = ''Meta-Llama-3.3-70B-Instruct'', client = (\<lambda>kw. Inr two_calls_completion)\<rparr>"

section \<open>The loops compute the closed descriptions\<close>

lemma content_text_of_fragments:
  "content_text_of c = concat (filter (\<lambda>t. t \<noteq> []) (text_fragments c))"
proof -
  have "concat [the (part_text p). p \<leftarrow> ps, truthy (part_text p)] =
        concat (filter (\<lambda>t. t \<noteq> []) (List.map_filter part_text ps))" for ps :: "part list"
  proof (induction ps)
    case Nil
    show ?case by simp
  next
    case (Cons p ps)
    then show ?case by (cases "part_text p") simp_all
  qed
  then show ?thesis by (simp add: content_text_of_def text_fragments_def)
qed

lemma messages_loop_eq:
  "messages_loop cs s = s\<lparr>l_messages := l_messages s @ map flatten_turn cs\<rparr>"
  by (induction cs arbitrary: s) (simp_all add: flatten_turn_def)

lemma api_tools_loop_eq:
  "api_tools_loop ts s =
     (s\<lparr>l_api_tools := l_api_tools s @
          map (\<lambda>t. api_tool_of (hd (function_declarations t))) (takeWhile has_declaration ts)\<rparr>,
      if list_all has_declaration ts then None
      else Some (IndexError ''list index out of range''))"
proof (induction ts arbitrary: s)
  case Nil
  show ?case by simp
next
  case (Cons t ts)
  show ?case
  proof (cases "function_declarations t")
    case Nil
    then show ?thesis by (simp add: has_declaration_def)
  next
    case (Cons fd fds)
    then show ?thesis
      by (simp add: Cons.IH has_declaration_def api_tool_of_def to_dict_def)
  qed
qed

lemma tools_branch:
  "(case tools req of
      None \<Rightarrow> (s, None)
    | Some [] \<Rightarrow> (s, None)
    | Some (t # ts) \<Rightarrow> api_tools_loop (t # ts) s) = api_tools_loop (supplied_tools req) s"
  by (simp add: supplied_tools_def split: option.splits list.splits)

lemma tool_call_step_eq:
  "tool_call_step lib tc s =
     s\<lparr>l_parts := l_parts s @ (case function_call_part lib tc of Some p \<Rightarrow> [p] | None \<Rightarrow> []),
       log_records := log_records s @ (case tool_call_log lib tc of Some r \<Rightarrow> [r] | None \<Rightarrow> [])\<rparr>"
  by (cases "tc_function tc")
     (simp_all add: tool_call_step_def function_call_part_def tool_call_log_def Let_def
        split: sum.splits option.splits)

lemma tool_calls_loop_eq:
  "tool_calls_loop lib tcs s =
     s\<lparr>l_parts := l_parts s @ List.map_filter (function_call_part lib) tcs,
       log_records := log_records s @ List.map_filter (tool_call_log lib) tcs\<rparr>"
proof (induction tcs arbitrary: s)
  case Nil
  show ?case by simp
next
  case (Cons tc tcs)
  show ?case
    by (simp add: Cons.IH tool_call_step_eq split: option.splits)
qed

lemma choice_step_eq:
  "choice_step lib ch s =
     s\<lparr>l_parts := l_parts s @ choice_parts lib ch,
       log_records := log_records s @ choice_logs lib ch\<rparr>"
proof (cases "ch_message ch")
  case Absent
  then show ?thesis
    by (simp add: choice_step_def choice_parts_def choice_logs_def choice_text_def
        text_parts_def tool_call_entries_def)
next
  case PyNone
  then show ?thesis
    by (simp add: choice_step_def choice_parts_def choice_logs_def choice_text_def
        text_parts_def tool_call_entries_def)
next
  case (Present msg)
  then show ?thesis
    by (cases "vm_content msg"; cases "vm_tool_calls msg")
       (simp_all add: choice_step_def choice_parts_def choice_logs_def choice_text_def
          text_parts_def tool_call_entries_def Let_def tool_calls_loop_eq)
qed

lemma choices_loop_eq:
  "choices_loop lib chs s =
     s\<lparr>l_parts := l_parts s @ concat (map (choice_parts lib) chs),
       log_records := log_records s @ concat (map (choice_logs lib) chs)\<rparr>"
  by (induction chs arbitrary: s) (simp_all add: choice_step_eq)

lemma or_empty_choices:
  "or_empty (getattr (choices c) (Some [])) = response_choices c"
  by (cases "choices c") (simp_all add: response_choices_def)

subsection \<open>The three ways an invocation ends\<close>

lemma gen_empty:
  "contents req = [] \<Longrightarrow>
   generate_content_async lib slf req stream =
     \<lparr>final = enter slf req, yielded = [],
      raised = Some (ValueError ''LlmRequest must contain contents'')\<rparr>"
  by (simp add: generate_content_async_def enter_def)

lemma gen_tools_error:
  assumes "contents req \<noteq> []" and "\<not> list_all has_declaration (supplied_tools req)"
  shows "generate_content_async lib slf req stream =
           \<lparr>final = after_conversion slf req, yielded = [],
            raised = Some (IndexError ''list index out of range'')\<rparr>"
  using assms
  by (simp add: generate_content_async_def Let_def tools_branch api_tools_loop_eq
      messages_loop_eq after_conversion_def enter_def del: api_tools_loop.simps)

lemma gen_called:
  assumes "contents req \<noteq> []" and "list_all has_declaration (supplied_tools req)"
  shows "generate_content_async lib slf req stream =
           (case client slf (request_payload slf req) of
              Inl e \<Rightarrow>
                \<lparr>final = (after_conversion slf req)
                           \<lparr>vendor_calls := [request_payload slf req],
                            log_records := [LogException ''SambaNova call failed'' e]\<rparr>,
                 yielded = [], raised = Some e\<rparr>
            | Inr c \<Rightarrow>
                \<lparr>final = (after_conversion slf req)
                           \<lparr>vendor_calls := [request_payload slf req],
                            l_parts := concat (map (choice_parts lib) (response_choices c)),
                            log_records := concat (map (choice_logs lib) (response_choices c))\<rparr>,
                 yielded = [\<lparr>content = \<lparr>role = ''model'',
                                        parts = concat (map (choice_parts lib) (response_choices c))\<rparr>,
                             partial = False\<rparr>],
                 raised = None\<rparr>)"
proof -
  have tw: "takeWhile has_declaration (supplied_tools req) = supplied_tools req"
    using assms(2) by (simp add: list_all_iff)
  show ?thesis
    using assms
    by (simp add: generate_content_async_def Let_def tools_branch api_tools_loop_eq
        call_samba_def call_samba_kwargs_def request_payload_def after_conversion_def tw
        converted_tools_def enter_def messages_loop_eq choices_loop_eq or_empty_choices
        del: api_tools_loop.simps split: sum.splits)
qed

lemma vendor_calls_eq:
  "vendor_calls (final (generate_content_async lib slf req stream)) =
     (if contents req \<noteq> [] \<and> list_all has_declaration (supplied_tools req)
      then [request_payload slf req] else [])"
proof (cases "contents req = []")
  case True
  then show ?thesis by (simp add: gen_empty enter_def)
next
  case False
  show ?thesis
  proof (cases "list_all has_declaration (supplied_tools req)")
    case True
    with False show ?thesis by (simp add: gen_called split: sum.splits)
  next
    case False
    with \<open>contents req \<noteq> []\<close> show ?thesis
      by (simp add: gen_tools_error after_conversion_def enter_def)
  qed
qed

lemma called_iff:
  "kw \<in> set (vendor_calls (final (generate_content_async lib slf req stream))) \<longleftrightarrow>
   contents req \<noteq> [] \<and> list_all has_declaration (supplied_tools req) \<and>
   kw = request_payload slf req"
  by (auto simp: vendor_calls_eq)

lemma l_messages_eq:
  "contents req \<noteq> [] \<Longrightarrow>
   l_messages (final (generate_content_async lib slf req stream)) =
     map flatten_turn (contents req)"
  by (cases "list_all has_declaration (supplied_tools req)")
     (simp_all add: gen_called gen_tools_error after_conversion_def split: sum.splits)

subsection \<open>The tool-call loop of the greeting agent\<close>

lemma greeting_tool_call_step_eq:
  "greeting_tool_call_step lib tc s =
     s\<lparr>l_parts := l_parts s @
          (case greeting_function_call_part lib tc of Some p \<Rightarrow> [p] | None \<Rightarrow> [])\<rparr>"
  by (cases "tc_function tc")
     (simp_all add: greeting_tool_call_step_def greeting_function_call_part_def Let_def
        split: option.splits)

lemma greeting_tool_calls_loop_eq:
  "greeting_tool_calls_loop lib tcs s =
     s\<lparr>l_parts := l_parts s @ List.map_filter (greeting_function_call_part lib) tcs\<rparr>"
proof (induction tcs arbitrary: s)
  case Nil
  show ?case by simp
next
  case (Cons tc tcs)
  show ?case
    by (simp add: Cons.IH greeting_tool_call_step_eq split: option.splits)
qed

section \<open>The request side\<close>

text \<open>
  Claim C1. For a request whose contents are not empty, the message list built
  by \<open>generate_content_async\<close> has one message per turn, in order; the i-th
  message has the role of the i-th turn and, as content, the concatenation in
  order and without separator of the non-empty text fragments of that turn,
  which is the empty string for a turn without text fragments. It is the list
  sent to the vendor whenever a call is made.
\<close>

theorem C1_messages_flatten_turns:
  fixes lib slf req stream
  defines "out \<equiv> generate_content_async lib slf req stream"
  assumes nonempty: "contents req \<noteq> []"
  shows "length (l_messages (final out)) = length (contents req) \<and>
         (\<forall>i < length (contents req).
            msg_role (l_messages (final out) ! i) = role (contents req ! i) \<and>
            msg_content (l_messages (final out) ! i) =
              concat (filter (\<lambda>t. t \<noteq> []) (text_fragments (contents req ! i))) \<and>
            (text_fragments (contents req ! i) = [] \<longrightarrow>
               msg_content (l_messages (final out) ! i) = [])) \<and>
         (\<forall>kw \<in> set (vendor_calls (final out)). kw_messages kw = l_messages (final out))"
proof -
  have msgs: "l_messages (final out) = map flatten_turn (contents req)"
    unfolding out_def using nonempty by (rule l_messages_eq)
  have sent: "kw_messages kw = l_messages (final out)"
    if "kw \<in> set (vendor_calls (final out))" for kw
    using that msgs unfolding out_def by (simp add: called_iff request_payload_def)
  have each: "msg_role (flatten_turn c) = role c \<and>
              msg_content (flatten_turn c) = concat (filter (\<lambda>t. t \<noteq> []) (text_fragments c)) \<and>
              (text_fragments c = [] \<longrightarrow> msg_content (flatten_turn c) = [])" for c
    by (simp add: flatten_turn_def content_text_of_fragments)
  show ?thesis
    using sent by (simp add: msgs each)
qed

theorem C1_messages_flatten_turns_witness:
  "contents example_request \<noteq> [] \<and>
   length (l_messages (final (generate_content_async keeping_lib answering_adapter
                                example_request False))) = length (contents example_request) \<and>
   l_messages (final (generate_content_async keeping_lib answering_adapter example_request False)) =
     [\<lparr>msg_role = ''user'', msg_content = ''Weather in NY?''\<rparr>,
      \<lparr>msg_role = ''model'', msg_content = ''''\<rparr>]"
proof -
  have h: "contents example_request \<noteq> []"
    by (simp add: example_request_def)
  have v: "map flatten_turn (contents example_request) =
             [\<lparr>msg_role = ''user'', msg_content = ''Weather in NY?''\<rparr>,
              \<lparr>msg_role = ''model'', msg_content = ''''\<rparr>]"
    by (simp add: example_request_def flatten_turn_def content_text_of_def Part_from_text_def)
  show ?thesis
    using h v C1_messages_flatten_turns [OF h, of keeping_lib answering_adapter False]
    by (simp add: l_messages_eq)
qed

text \<open>
  Claim C2. For a request whose contents are empty, \<open>generate_content_async\<close>
  raises the \<open>ValueError\<close> before any call of the vendor client, and yields no
  response.
\<close>

theorem C2_empty_contents_rejected:
  fixes lib slf req stream
  defines "out \<equiv> generate_content_async lib slf req stream"
  assumes empty: "contents req = []"
  shows "raised out = Some (ValueError ''LlmRequest must contain contents'') \<and>
         vendor_calls (final out) = [] \<and> yielded out = [] \<and> log_records (final out) = []"
  unfolding out_def using empty by (simp add: gen_empty enter_def)

theorem C2_empty_contents_rejected_witness:
  "contents empty_request = [] \<and>
   raised (generate_content_async checking_lib answering_adapter empty_request False) =
     Some (ValueError ''LlmRequest must contain contents'') \<and>
   vendor_calls (final (generate_content_async checking_lib answering_adapter empty_request False)) = [] \<and>
   yielded (generate_content_async checking_lib answering_adapter empty_request False) = []"
proof -
  have h: "contents empty_request = []"
    by (simp add: empty_request_def)
  show ?thesis
    using h C2_empty_contents_rejected [OF h, of checking_lib answering_adapter False]
    by simp
qed

text \<open>
  Claim C5. Every payload sent to the vendor carries the converted tool list
  together with the tool choice \<open>auto\<close> if at least one tool was supplied, and
  neither of them otherwise. The converted list has, for each supplied tool in
  order, the entry of type \<open>function\<close> with the name, the description and the
  parameters of the first declaration of the tool; a payload is sent only when
  every supplied tool has a declaration, and then exactly one is sent for a
  request with contents.
\<close>

theorem C5_tools_in_payload:
  fixes lib slf req stream
  defines "out \<equiv> generate_content_async lib slf req stream"
  shows "(\<forall>kw \<in> set (vendor_calls (final out)).
            (kw_tools kw \<noteq> None \<longleftrightarrow> supplied_tools req \<noteq> []) \<and>
            (kw_tool_choice kw \<noteq> None \<longleftrightarrow> supplied_tools req \<noteq> []) \<and>
            (supplied_tools req \<noteq> [] \<longrightarrow>
               kw_tool_choice kw = Some ''auto'' \<and>
               kw_tools kw =
                 Some (map (\<lambda>t. \<lparr>at_type = ''function'',
                                  at_function =
                                    \<lparr>af_name = name (hd (function_declarations t)),
                                     af_description = description (hd (function_declarations t)),
                                     af_parameters =
                                       to_dict (parameters (hd (function_declarations t)))\<rparr>\<rparr>)
                         (supplied_tools req))) \<and>
            (\<forall>t \<in> set (supplied_tools req). function_declarations t \<noteq> [])) \<and>
         (contents req \<noteq> [] \<and> (\<forall>t \<in> set (supplied_tools req). function_declarations t \<noteq> []) \<longrightarrow>
            length (vendor_calls (final out)) = 1)"
proof -
  have all: "list_all has_declaration (supplied_tools req) \<longleftrightarrow>
             (\<forall>t \<in> set (supplied_tools req). function_declarations t \<noteq> [])"
    by (simp add: list_all_iff has_declaration_def)
  have conv: "converted_tools req =
              map (\<lambda>t. \<lparr>at_type = ''function'',
                         at_function =
                           \<lparr>af_name = name (hd (function_declarations t)),
                            af_description = description (hd (function_declarations t)),
                            af_parameters =
                              to_dict (parameters (hd (function_declarations t)))\<rparr>\<rparr>)
                (supplied_tools req)"
    by (simp add: converted_tools_def api_tool_of_def to_dict_def)
  show ?thesis
    unfolding out_def
    by (simp add: vendor_calls_eq request_payload_def all conv)
qed

theorem C5_tools_in_payload_witness:
  "map kw_tools (vendor_calls (final (generate_content_async keeping_lib answering_adapter
                                        example_request False))) =
     [Some [\<lparr>at_type = ''function'',
             at_function =
               \<lparr>af_name = ''get_weather'',
                af_description = ''Retrieves the current weather report for a specified city.'',
                af_parameters =
                  JObj [(''type'', JStr ''object''),
                        (''properties'', JObj [(''city'', JObj [(''type'', JStr ''string'')])])]\<rparr>\<rparr>]] \<and>
   map kw_tool_choice (vendor_calls (final (generate_content_async keeping_lib answering_adapter
                                              example_request False))) = [Some ''auto''] \<and>
   map kw_tools (vendor_calls (final (generate_content_async keeping_lib answering_adapter
                                        plain_request False))) = [None] \<and>
   map kw_tool_choice (vendor_calls (final (generate_content_async keeping_lib answering_adapter
                                              plain_request False))) = [None]"
proof -
  have s1: "supplied_tools example_request = [get_weather_tool]"
    by (simp add: supplied_tools_def example_request_def)
  have s2: "supplied_tools plain_request = []"
    by (simp add: supplied_tools_def plain_request_def)
  have c1: "contents example_request \<noteq> []"
    by (simp add: example_request_def)
  have c2: "contents plain_request \<noteq> []"
    by (simp add: plain_request_def)
  have d: "function_declarations get_weather_tool \<noteq> []"
    by (simp add: get_weather_tool_def)
  have n1: "length (vendor_calls (final (generate_content_async keeping_lib answering_adapter
                                           example_request False))) = 1"
    using C5_tools_in_payload [of keeping_lib answering_adapter example_request False] c1 d
    by (simp add: s1)
  have n2: "length (vendor_calls (final (generate_content_async keeping_lib answering_adapter
                                           plain_request False))) = 1"
    using C5_tools_in_payload [of keeping_lib answering_adapter plain_request False] c2
    by (simp add: s2)
  from n1 obtain kw1 where k1:
    "vendor_calls (final (generate_content_async keeping_lib answering_adapter
                            example_request False)) = [kw1]"
    by (auto simp: length_Suc_conv)
  from n2 obtain kw2 where k2:
    "vendor_calls (final (generate_content_async keeping_lib answering_adapter
                            plain_request False)) = [kw2]"
    by (auto simp: length_Suc_conv)
  show ?thesis
    using C5_tools_in_payload [of keeping_lib answering_adapter example_request False]
      C5_tools_in_payload [of keeping_lib answering_adapter plain_request False]
    by (simp add: k1 k2 s1 s2 get_weather_tool_def to_dict_def)
qed

section \<open>The vendor call\<close>

text \<open>
  Claim C4. For a request with contents on which the call of the vendor client
  returns a completion, \<open>generate_content_async\<close> makes that one call and no
  other, raises nothing, and yields exactly one response: its content has the
  role \<open>model\<close>, its partial flag is false, and its parts are the parts that
  the choices of the completion produce, all of them, choice after choice.
\<close>

theorem C4_one_call_one_response:
  fixes lib slf req stream
  defines "out \<equiv> generate_content_async lib slf req stream"
  assumes nonempty: "contents req \<noteq> []"
    and called: "kw \<in> set (vendor_calls (final out))"
    and answered: "client slf kw = Inr c"
  shows "vendor_calls (final out) = [kw] \<and> raised out = None \<and>
         yielded out =
           [\<lparr>content = \<lparr>role = ''model'',
                         parts = concat (map (choice_parts lib) (response_choices c))\<rparr>,
             partial = False\<rparr>] \<and>
         (\<forall>ch s. l_parts (choice_step lib ch s) = l_parts s @ choice_parts lib ch)"
proof -
  from called have tools_ok: "list_all has_declaration (supplied_tools req)"
    and kw: "kw = request_payload slf req"
    unfolding out_def by (simp_all add: called_iff)
  from answered kw have "client slf (request_payload slf req) = Inr c"
    by simp
  then show ?thesis
    unfolding out_def using nonempty tools_ok kw
    by (simp add: gen_called choice_step_eq)
qed

theorem C4_one_call_one_response_witness:
  "contents example_request \<noteq> [] \<and>
   length (vendor_calls (final (generate_content_async checking_lib answering_adapter
                                  example_request False))) = 1 \<and>
   raised (generate_content_async checking_lib answering_adapter example_request False) = None \<and>
   yielded (generate_content_async checking_lib answering_adapter example_request False) =
     [\<lparr>content = \<lparr>role = ''model'',
                   parts = [Part_from_text ''Hello'',
                            Part_function_call (Some ''get_weather'')
                              (JObj [(''city'', JStr ''NY'')]),
                            Part_function_call (Some ''get_current_time'') (JObj [])]\<rparr>,
       partial = False\<rparr>]"
proof -
  have h: "contents example_request \<noteq> []"
    by (simp add: example_request_def)
  have t: "list_all has_declaration (supplied_tools example_request)"
    by (simp add: supplied_tools_def example_request_def has_declaration_def
        get_weather_tool_def)
  have k: "request_payload answering_adapter example_request
             \<in> set (vendor_calls (final (generate_content_async checking_lib answering_adapter
                                            example_request False)))"
    using h t by (simp add: called_iff)
  have a: "client answering_adapter (request_payload answering_adapter example_request) =
             Inr example_completion"
    by (simp add: answering_adapter_def)
  have p: "concat (map (choice_parts checking_lib) (response_choices example_completion)) =
             [Part_from_text ''Hello'',
              Part_function_call (Some ''get_weather'') (JObj [(''city'', JStr ''NY'')]),
              Part_function_call (Some ''get_current_time'') (JObj [])]"
    by (simp add: response_choices_def example_completion_def choice_parts_def text_parts_def
        choice_text_def tool_call_entries_def function_call_part_def json_loads_def
        weather_call_def malformed_call_def bare_call_def checking_lib_def example_loads_def)
  show ?thesis
    using h p C4_one_call_one_response [OF h k a]
    by simp
qed

text \<open>
  Claim C6. For a request on which the call of the vendor client raises,
  \<open>generate_content_async\<close> writes the log record of the failure and raises
  the same exception to its caller; it yields no response, and that call is
  the only one it makes.
\<close>

theorem C6_vendor_failure_propagates:
  fixes lib slf req stream
  defines "out \<equiv> generate_content_async lib slf req stream"
  assumes called: "kw \<in> set (vendor_calls (final out))"
    and failed: "client slf kw = Inl e"
  shows "raised out = Some e \<and> yielded out = [] \<and>
         log_records (final out) = [LogException ''SambaNova call failed'' e] \<and>
         vendor_calls (final out) = [kw]"
proof -
  from called have nonempty: "contents req \<noteq> []"
    and tools_ok: "list_all has_declaration (supplied_tools req)"
    and kw: "kw = request_payload slf req"
    unfolding out_def by (simp_all add: called_iff)
  from failed kw have "client slf (request_payload slf req) = Inl e"
    by simp
  then show ?thesis
    unfolding out_def using nonempty tools_ok kw
    by (simp add: gen_called)
qed

theorem C6_vendor_failure_propagates_witness:
  "raised (generate_content_async checking_lib failing_adapter plain_request False) =
     Some (ClientError ''Connection error.'') \<and>
   yielded (generate_content_async checking_lib failing_adapter plain_request False) = [] \<and>
   log_records (final (generate_content_async checking_lib failing_adapter plain_request False)) =
     [LogException ''SambaNova call failed'' (ClientError ''Connection error.'')] \<and>
   length (vendor_calls (final (generate_content_async checking_lib failing_adapter
                                  plain_request False))) = 1"
proof -
  have h: "contents plain_request \<noteq> []"
    by (simp add: plain_request_def)
  have t: "list_all has_declaration (supplied_tools plain_request)"
    by (simp add: supplied_tools_def plain_request_def)
  have k: "request_payload failing_adapter plain_request
             \<in> set (vendor_calls (final (generate_content_async checking_lib failing_adapter
                                            plain_request False)))"
    using h t by (simp add: called_iff)
  have f: "client failing_adapter (request_payload failing_adapter plain_request) =
             Inl (ClientError ''Connection error.'')"
    by (simp add: failing_adapter_def)
  show ?thesis
    using C6_vendor_failure_propagates [OF k f]
    by simp
qed

section \<open>The response side\<close>

lemma function_call_part_shape:
  "function_call_part lib tc = Some p \<Longrightarrow> part_text p = None \<and> part_function_call p \<noteq> None"
  by (auto simp: function_call_part_def Part_function_call_def
      split: attr.splits sum.splits option.splits)

lemma no_text_among_function_calls:
  "filter (\<lambda>p. part_text p \<noteq> None) (List.map_filter (function_call_part lib) tcs) = []"
  by (induction tcs) (auto split: option.splits dest: function_call_part_shape)

lemma text_parts_cases:
  "text_parts ch =
     (case ch_message ch of
        Present msg \<Rightarrow>
          (case vm_content msg of
             Present t \<Rightarrow> if t = [] then [] else [Part_from_text t]
           | _ \<Rightarrow> [])
      | _ \<Rightarrow> [])"
  by (simp add: text_parts_def choice_text_def split: attr.splits)

lemma text_parts_shape:
  "length (text_parts ch) \<le> 1 \<and>
   (\<forall>p \<in> set (text_parts ch). part_text p \<noteq> None \<and> part_function_call p = None)"
  by (cases "choice_text ch") (simp_all add: text_parts_def Part_from_text_def)

lemma text_among_choice_parts:
  "filter (\<lambda>p. part_text p \<noteq> None) (choice_parts lib ch) = text_parts ch"
proof -
  have "filter (\<lambda>p. part_text p \<noteq> None) (text_parts ch) = text_parts ch"
    using text_parts_shape [of ch] by (simp only: filter_id_conv) blast
  then show ?thesis
    unfolding choice_parts_def filter_append no_text_among_function_calls by simp
qed

text \<open>
  Claim C7. The parts a choice adds follow the parts already there. Among them
  there is a text part if and only if the message of the choice has a text
  content that is not empty, and then there is exactly one, carrying that
  content. A choice whose message is missing or \<open>None\<close> adds nothing; a message
  whose tool-call list is missing, \<open>None\<close> or empty adds no function-call part
  and no log record; a tool-call entry whose function object is missing or
  \<open>None\<close> adds nothing; a completion whose list of choices is missing, \<open>None\<close>
  or empty gives a response without parts. None of these raises. For the
  method: on a request with contents whose tools all have a declaration and
  whose vendor call returns a completion, nothing is raised, one response is
  yielded, and its text parts are, choice after choice, the one text part of
  each choice whose message has a non-empty content and nothing for the other
  choices.
\<close>

theorem C7_text_part_and_missing_fields:
  fixes lib slf req stream
  defines "out \<equiv> generate_content_async lib slf req stream"
  shows "take (length (l_parts s)) (l_parts (choice_step lib ch s)) = l_parts s \<and>
         ((\<exists>p \<in> set (drop (length (l_parts s)) (l_parts (choice_step lib ch s))).
              part_text p \<noteq> None) \<longleftrightarrow>
          (\<exists>msg t. ch_message ch = Present msg \<and> vm_content msg = Present t \<and> t \<noteq> [])) \<and>
         (\<forall>msg t. ch_message ch = Present msg \<and> vm_content msg = Present t \<and> t \<noteq> [] \<longrightarrow>
            filter (\<lambda>p. part_text p \<noteq> None)
              (drop (length (l_parts s)) (l_parts (choice_step lib ch s))) = [Part_from_text t]) \<and>
         (ch_message ch = Absent \<or> ch_message ch = PyNone \<longrightarrow> choice_step lib ch s = s) \<and>
         (\<forall>msg. ch_message ch = Present msg \<and>
                 (vm_tool_calls msg = Absent \<or> vm_tool_calls msg = PyNone \<or>
                  vm_tool_calls msg = Present []) \<longrightarrow>
            choice_step lib ch s = s\<lparr>l_parts := l_parts s @ text_parts ch\<rparr>) \<and>
         (tc_function tc = Absent \<or> tc_function tc = PyNone \<longrightarrow> tool_call_step lib tc s = s) \<and>
         (choices c = Absent \<or> choices c = PyNone \<or> choices c = Present [] \<longrightarrow>
            choices_loop lib (or_empty (getattr (choices c) (Some []))) s = s) \<and>
         text_parts ch =
           (case ch_message ch of
              Present msg \<Rightarrow>
                (case vm_content msg of
                   Present t \<Rightarrow> if t = [] then [] else [Part_from_text t]
                 | _ \<Rightarrow> [])
            | _ \<Rightarrow> []) \<and>
         (contents req \<noteq> [] \<and> (\<forall>t \<in> set (supplied_tools req). function_declarations t \<noteq> []) \<and>
          client slf (request_payload slf req) = Inr c \<longrightarrow>
            raised out = None \<and> length (yielded out) = 1 \<and>
            map (\<lambda>r. filter (\<lambda>p. part_text p \<noteq> None) (parts (content r))) (yielded out) =
              [concat (map text_parts (response_choices c))] \<and>
            map (\<lambda>r. parts (content r)) (yielded out) =
              [concat (map (\<lambda>ch. drop (length (l_parts s)) (l_parts (choice_step lib ch s)))
                         (response_choices c))] \<and>
            (choices c = Absent \<or> choices c = PyNone \<or> choices c = Present [] \<longrightarrow>
               yielded out = [\<lparr>content = \<lparr>role = ''model'', parts = []\<rparr>, partial = False\<rparr>] \<and>
               log_records (final out) = []))"
proof -
  have added: "drop (length (l_parts s)) (l_parts (choice_step lib ch s)) = choice_parts lib ch"
    for ch
    by (simp add: choice_step_eq)
  have texts: "filter (\<lambda>p. part_text p \<noteq> None) (choice_parts lib ch) = text_parts ch" for ch
    by (rule text_among_choice_parts)
  have kept: "take (length (l_parts s)) (l_parts (choice_step lib ch s)) = l_parts s"
    by (simp add: choice_step_eq)
  have ex_text: "(\<exists>p \<in> set (choice_parts lib ch). part_text p \<noteq> None) \<longleftrightarrow> text_parts ch \<noteq> []"
    unfolding texts [symmetric] filter_empty_conv by blast
  have present: "text_parts ch \<noteq> [] \<longleftrightarrow>
             (\<exists>msg t. ch_message ch = Present msg \<and> vm_content msg = Present t \<and> t \<noteq> [])"
    by (auto simp: text_parts_cases split: attr.splits)
  have iff: "(\<exists>p \<in> set (drop (length (l_parts s)) (l_parts (choice_step lib ch s))).
                part_text p \<noteq> None) \<longleftrightarrow>
             (\<exists>msg t. ch_message ch = Present msg \<and> vm_content msg = Present t \<and> t \<noteq> [])"
    unfolding added ex_text present ..
  have one: "\<forall>msg t. ch_message ch = Present msg \<and> vm_content msg = Present t \<and> t \<noteq> [] \<longrightarrow>
               filter (\<lambda>p. part_text p \<noteq> None)
                 (drop (length (l_parts s)) (l_parts (choice_step lib ch s))) = [Part_from_text t]"
    unfolding added texts by (simp add: text_parts_cases)
  have no_message: "ch_message ch = Absent \<or> ch_message ch = PyNone \<longrightarrow> choice_step lib ch s = s"
    by (auto simp: choice_step_def)
  have no_calls: "\<forall>msg. ch_message ch = Present msg \<and>
                    (vm_tool_calls msg = Absent \<or> vm_tool_calls msg = PyNone \<or>
                     vm_tool_calls msg = Present []) \<longrightarrow>
                    choice_step lib ch s = s\<lparr>l_parts := l_parts s @ text_parts ch\<rparr>"
    by (auto simp: choice_step_eq choice_parts_def choice_logs_def tool_call_entries_def)
  have no_choices: "response_choices c = []"
    if "choices c = Absent \<or> choices c = PyNone \<or> choices c = Present []"
    using that by (auto simp: response_choices_def)
  have loop: "choices c = Absent \<or> choices c = PyNone \<or> choices c = Present [] \<longrightarrow>
              choices_loop lib (or_empty (getattr (choices c) (Some []))) s = s"
    using no_choices by (auto simp: or_empty_choices)
  have filter_concat: "filter P (concat xss) = concat (map (filter P) xss)"
    for P :: "part \<Rightarrow> bool" and xss
    by (induction xss) simp_all
  have top: "contents req \<noteq> [] \<and> (\<forall>t \<in> set (supplied_tools req). function_declarations t \<noteq> []) \<and>
             client slf (request_payload slf req) = Inr c \<longrightarrow>
             raised out = None \<and> length (yielded out) = 1 \<and>
             map (\<lambda>r. filter (\<lambda>p. part_text p \<noteq> None) (parts (content r))) (yielded out) =
               [concat (map text_parts (response_choices c))] \<and>
             map (\<lambda>r. parts (content r)) (yielded out) =
               [concat (map (\<lambda>ch. drop (length (l_parts s)) (l_parts (choice_step lib ch s)))
                          (response_choices c))] \<and>
             (choices c = Absent \<or> choices c = PyNone \<or> choices c = Present [] \<longrightarrow>
                yielded out = [\<lparr>content = \<lparr>role = ''model'', parts = []\<rparr>, partial = False\<rparr>] \<and>
                log_records (final out) = [])"
  proof (intro impI, elim conjE)
    assume h: "contents req \<noteq> []"
      and d: "\<forall>t \<in> set (supplied_tools req). function_declarations t \<noteq> []"
      and a: "client slf (request_payload slf req) = Inr c"
    from d have t: "list_all has_declaration (supplied_tools req)"
      by (simp add: list_all_iff has_declaration_def)
    from h t a have gen: "generate_content_async lib slf req stream =
         \<lparr>final = (after_conversion slf req)
                    \<lparr>vendor_calls := [request_payload slf req],
                     l_parts := concat (map (choice_parts lib) (response_choices c)),
                     log_records := concat (map (choice_logs lib) (response_choices c))\<rparr>,
          yielded = [\<lparr>content = \<lparr>role = ''model'',
                                 parts = concat (map (choice_parts lib) (response_choices c))\<rparr>,
                      partial = False\<rparr>],
          raised = None\<rparr>"
      by (simp add: gen_called)
    have ft: "filter (\<lambda>p. part_text p \<noteq> None)
                (concat (map (choice_parts lib) (response_choices c))) =
              concat (map text_parts (response_choices c))"
      unfolding filter_concat map_map comp_def texts ..
    have r: "raised out = None" and n: "length (yielded out) = 1"
      and ps: "map (\<lambda>r. parts (content r)) (yielded out) =
                 [concat (map (choice_parts lib) (response_choices c))]"
      unfolding out_def gen by simp_all
    have fs: "map (\<lambda>r. filter (\<lambda>p. part_text p \<noteq> None) (parts (content r))) (yielded out) =
                [concat (map text_parts (response_choices c))]"
      unfolding out_def gen using ft by simp
    have ps': "map (\<lambda>r. parts (content r)) (yielded out) =
                 [concat (map (\<lambda>ch. drop (length (l_parts s)) (l_parts (choice_step lib ch s)))
                            (response_choices c))]"
      unfolding added using ps .
    have none: "choices c = Absent \<or> choices c = PyNone \<or> choices c = Present [] \<longrightarrow>
                yielded out = [\<lparr>content = \<lparr>role = ''model'', parts = []\<rparr>, partial = False\<rparr>] \<and>
                log_records (final out) = []"
      unfolding out_def gen using no_choices by (auto simp: after_conversion_def enter_def)
    show "raised out = None \<and> length (yielded out) = 1 \<and>
          map (\<lambda>r. filter (\<lambda>p. part_text p \<noteq> None) (parts (content r))) (yielded out) =
            [concat (map text_parts (response_choices c))] \<and>
          map (\<lambda>r. parts (content r)) (yielded out) =
            [concat (map (\<lambda>ch. drop (length (l_parts s)) (l_parts (choice_step lib ch s)))
                       (response_choices c))] \<and>
          (choices c = Absent \<or> choices c = PyNone \<or> choices c = Present [] \<longrightarrow>
             yielded out = [\<lparr>content = \<lparr>role = ''model'', parts = []\<rparr>, partial = False\<rparr>] \<and>
             log_records (final out) = [])"
      by (intro conjI r n fs ps' none)
  qed
  have no_function: "tc_function tc = Absent \<or> tc_function tc = PyNone \<longrightarrow>
                     tool_call_step lib tc s = s"
    by (auto simp: tool_call_step_def)
  show ?thesis
    by (intro conjI kept iff one no_message no_calls no_function loop text_parts_cases top)
qed

theorem C7_text_part_and_missing_fields_witness:
  "contents example_request \<noteq> [] \<and>
   supplied_tools example_request = [get_weather_tool] \<and>
   function_declarations get_weather_tool \<noteq> [] \<and>
   client answering_adapter (request_payload answering_adapter example_request) =
     Inr example_completion \<and>
   raised (generate_content_async checking_lib answering_adapter example_request False) = None \<and>
   map (\<lambda>r. filter (\<lambda>p. part_text p \<noteq> None) (parts (content r)))
     (yielded (generate_content_async checking_lib answering_adapter example_request False)) =
     [[Part_from_text ''Hello'']] \<and>
   yielded (generate_content_async checking_lib silent_adapter plain_request False) =
     [\<lparr>content = \<lparr>role = ''model'', parts = []\<rparr>, partial = False\<rparr>] \<and>
   raised (generate_content_async checking_lib silent_adapter plain_request False) = None \<and>
   choice_step checking_lib \<lparr>ch_message = Absent\<rparr> (enter silent_adapter plain_request) =
     enter silent_adapter plain_request \<and>
   l_parts (choice_step checking_lib
              \<lparr>ch_message = Present \<lparr>vm_content = Present ''Hello'', vm_tool_calls = Absent\<rparr>\<rparr>
              (enter silent_adapter plain_request)) = [Part_from_text ''Hello'']"
proof -
  have h1: "contents example_request \<noteq> []"
    by (simp add: example_request_def)
  have t1: "\<forall>t \<in> set (supplied_tools example_request). function_declarations t \<noteq> []"
    by (simp add: supplied_tools_def example_request_def get_weather_tool_def)
  have st: "supplied_tools example_request = [get_weather_tool]"
    by (simp add: supplied_tools_def example_request_def)
  have fd: "function_declarations get_weather_tool \<noteq> []"
    by (simp add: get_weather_tool_def)
  have a1: "client answering_adapter (request_payload answering_adapter example_request) =
              Inr example_completion"
    by (simp add: answering_adapter_def)
  have x1: "concat (map text_parts (response_choices example_completion)) =
              [Part_from_text ''Hello'']"
    by (simp add: response_choices_def example_completion_def text_parts_cases)
  have h2: "contents plain_request \<noteq> []"
    by (simp add: plain_request_def)
  have t2: "\<forall>t \<in> set (supplied_tools plain_request). function_declarations t \<noteq> []"
    by (simp add: supplied_tools_def plain_request_def)
  have a2: "client silent_adapter (request_payload silent_adapter plain_request) =
              Inr empty_completion"
    by (simp add: silent_adapter_def)
  have e: "choices empty_completion = Absent"
    by (simp add: empty_completion_def)
  have x2: "text_parts \<lparr>ch_message = Present \<lparr>vm_content = Present ''Hello'',
                                               vm_tool_calls = Absent\<rparr>\<rparr> =
              [Part_from_text ''Hello'']"
    by (simp add: text_parts_cases)
  have l: "l_parts (enter silent_adapter plain_request) = []"
    by (simp add: enter_def)
  note top1 = C7_text_part_and_missing_fields [where lib = checking_lib
      and slf = answering_adapter and req = example_request and stream = False
      and c = example_completion and s = "enter silent_adapter plain_request",
      THEN conjunct2, THEN conjunct2, THEN conjunct2, THEN conjunct2, THEN conjunct2,
      THEN conjunct2, THEN conjunct2, THEN conjunct2, THEN mp,
      OF conjI [OF h1 conjI [OF t1 a1]]]
  have r1a: "raised (generate_content_async checking_lib answering_adapter example_request
                       False) = None"
    by (rule top1 [THEN conjunct1])
  have r1b: "map (\<lambda>r. filter (\<lambda>p. part_text p \<noteq> None) (parts (content r)))
               (yielded (generate_content_async checking_lib answering_adapter example_request
                           False)) = [[Part_from_text ''Hello'']]"
    unfolding x1 [symmetric] by (rule top1 [THEN conjunct2, THEN conjunct2, THEN conjunct1])
  note top2 = C7_text_part_and_missing_fields [where lib = checking_lib
      and slf = silent_adapter and req = plain_request and stream = False
      and c = empty_completion and s = "enter silent_adapter plain_request",
      THEN conjunct2, THEN conjunct2, THEN conjunct2, THEN conjunct2, THEN conjunct2,
      THEN conjunct2, THEN conjunct2, THEN conjunct2, THEN mp,
      OF conjI [OF h2 conjI [OF t2 a2]]]
  have r2b: "raised (generate_content_async checking_lib silent_adapter plain_request False) =
               None"
    by (rule top2 [THEN conjunct1])
  have r2a: "yielded (generate_content_async checking_lib silent_adapter plain_request False) =
               [\<lparr>content = \<lparr>role = ''model'', parts = []\<rparr>, partial = False\<rparr>]"
    by (rule top2 [THEN conjunct2, THEN conjunct2, THEN conjunct2, THEN conjunct2, THEN mp,
          OF disjI1 [OF e], THEN conjunct1])
  have r3: "choice_step checking_lib \<lparr>ch_message = Absent\<rparr> (enter silent_adapter plain_request) =
              enter silent_adapter plain_request"
    using C7_text_part_and_missing_fields [where s = "enter silent_adapter plain_request"
        and lib = checking_lib and ch = "\<lparr>ch_message = Absent\<rparr>"]
    by simp
  have r4: "l_parts (choice_step checking_lib
              \<lparr>ch_message = Present \<lparr>vm_content = Present ''Hello'', vm_tool_calls = Absent\<rparr>\<rparr>
              (enter silent_adapter plain_request)) = [Part_from_text ''Hello'']"
    using x2 l
      C7_text_part_and_missing_fields [where s = "enter silent_adapter plain_request"
        and lib = checking_lib
        and ch = "\<lparr>ch_message = Present \<lparr>vm_content = Present ''Hello'',
                                            vm_tool_calls = Absent\<rparr>\<rparr>"]
    by simp
  show ?thesis
    by (intro conjI h1 st fd a1 r1a r1b r2a r2b r3 r4)
qed

text \<open>
  Claim C8. The parts of the yielded response keep the order of the vendor's
  response: the choices contribute in their order; within a choice the text
  part, when there is one, comes before every function-call part; and the
  function-call parts are those of the tool-call entries that give one, in the
  order of the entries.
\<close>

theorem C8_parts_keep_order:
  fixes lib slf req stream
  defines "out \<equiv> generate_content_async lib slf req stream"
  assumes called: "kw \<in> set (vendor_calls (final out))"
    and answered: "client slf kw = Inr c"
  shows "map (\<lambda>r. parts (content r)) (yielded out) =
           [concat (map (\<lambda>ch. text_parts ch @
                                map (\<lambda>tc. the (function_call_part lib tc))
                                  (filter (\<lambda>tc. function_call_part lib tc \<noteq> None)
                                     (tool_call_entries ch)))
                      (response_choices c))] \<and>
         (\<forall>ch. length (text_parts ch) \<le> 1 \<and>
               (\<forall>p \<in> set (text_parts ch). part_text p \<noteq> None \<and> part_function_call p = None)) \<and>
         (\<forall>tc p. function_call_part lib tc = Some p \<longrightarrow>
                  part_text p = None \<and> part_function_call p \<noteq> None) \<and>
         (\<forall>tcs s. l_parts (tool_calls_loop lib tcs s) =
                   l_parts s @ map (\<lambda>tc. the (function_call_part lib tc))
                                 (filter (\<lambda>tc. function_call_part lib tc \<noteq> None) tcs)) \<and>
         (\<forall>ch s. l_parts (choice_step lib ch s) =
                  l_parts s @ text_parts ch @
                  map (\<lambda>tc. the (function_call_part lib tc))
                    (filter (\<lambda>tc. function_call_part lib tc \<noteq> None) (tool_call_entries ch)))"
proof -
  from called have nonempty: "contents req \<noteq> []"
    and tools_ok: "list_all has_declaration (supplied_tools req)"
    and kw: "kw = request_payload slf req"
    unfolding out_def by (simp_all add: called_iff)
  have mf: "List.map_filter f xs = map (\<lambda>x. the (f x)) (filter (\<lambda>x. f x \<noteq> None) xs)"
    for f :: "tool_call \<Rightarrow> part option" and xs
    by (simp add: List.map_filter_def comp_def)
  have parts_eq: "choice_parts lib ch =
                  text_parts ch @ map (\<lambda>tc. the (function_call_part lib tc))
                                   (filter (\<lambda>tc. function_call_part lib tc \<noteq> None)
                                      (tool_call_entries ch))" for ch
    by (simp add: choice_parts_def mf)
  have shape: "length (text_parts ch) \<le> 1 \<and>
               (\<forall>p \<in> set (text_parts ch). part_text p \<noteq> None \<and> part_function_call p = None)" for ch
    by (rule text_parts_shape)
  from answered kw have "client slf (request_payload slf req) = Inr c"
    by simp
  then have "map (\<lambda>r. parts (content r)) (yielded out) =
             [concat (map (choice_parts lib) (response_choices c))]"
    unfolding out_def using nonempty tools_ok by (simp add: gen_called)
  then have resp: "map (\<lambda>r. parts (content r)) (yielded out) =
           [concat (map (\<lambda>ch. text_parts ch @
                                map (\<lambda>tc. the (function_call_part lib tc))
                                  (filter (\<lambda>tc. function_call_part lib tc \<noteq> None)
                                     (tool_call_entries ch)))
                      (response_choices c))]"
    unfolding parts_eq .
  have loop: "l_parts (tool_calls_loop lib tcs s) =
                l_parts s @ map (\<lambda>tc. the (function_call_part lib tc))
                              (filter (\<lambda>tc. function_call_part lib tc \<noteq> None) tcs)" for tcs s
    unfolding tool_calls_loop_eq mf by simp
  have step: "l_parts (choice_step lib ch s) =
                l_parts s @ text_parts ch @
                map (\<lambda>tc. the (function_call_part lib tc))
                  (filter (\<lambda>tc. function_call_part lib tc \<noteq> None) (tool_call_entries ch))"
    for ch s
    unfolding choice_step_eq parts_eq by simp
  show ?thesis
    using resp shape function_call_part_shape [of lib] loop step
    by blast
qed

theorem C8_parts_keep_order_witness:
  "map (\<lambda>r. parts (content r))
     (yielded (generate_content_async checking_lib answering_adapter example_request False)) =
     [[Part_from_text ''Hello'',
       Part_function_call (Some ''get_weather'') (JObj [(''city'', JStr ''NY'')]),
       Part_function_call (Some ''get_current_time'') (JObj [])]]"
proof -
  have h: "contents example_request \<noteq> []"
    by (simp add: example_request_def)
  have t: "list_all has_declaration (supplied_tools example_request)"
    by (simp add: supplied_tools_def example_request_def has_declaration_def
        get_weather_tool_def)
  have k: "request_payload answering_adapter example_request
             \<in> set (vendor_calls (final (generate_content_async checking_lib answering_adapter
                                            example_request False)))"
    using h t by (simp add: called_iff)
  have a: "client answering_adapter (request_payload answering_adapter example_request) =
             Inr example_completion"
    by (simp add: answering_adapter_def)
  have f1: "function_call_part checking_lib weather_call =
              Some (Part_function_call (Some ''get_weather'') (JObj [(''city'', JStr ''NY'')]))"
    by (simp add: function_call_part_def json_loads_def weather_call_def checking_lib_def
        example_loads_def)
  have f2: "function_call_part checking_lib malformed_call = None"
    by (simp add: function_call_part_def json_loads_def malformed_call_def checking_lib_def
        example_loads_def)
  have f3: "function_call_part checking_lib bare_call =
              Some (Part_function_call (Some ''get_current_time'') (JObj []))"
    by (simp add: function_call_part_def json_loads_def bare_call_def checking_lib_def
        example_loads_def)
  show ?thesis
    using C8_parts_keep_order [OF k a] f1 f2 f3
    by (simp add: response_choices_def example_completion_def text_parts_cases
        tool_call_entries_def)
qed

text \<open>
  Claim C10. A tool-call entry whose function object has no arguments
  attribute is decoded from the default string \<^verbatim>\<open>{}\<close>; when the decoder gives
  the empty mapping for it, and \<^verbatim>\<open>FunctionCall\<close> takes the empty mapping, the
  entry adds a function-call part with the name of the function and the empty
  mapping and writes no log record. For the method: on a request with contents
  whose tools all have a declaration and whose vendor call returns a completion
  with such an entry, nothing is raised and the part is among the parts of the
  one response that is yielded.
\<close>

theorem C10_missing_arguments_default:
  fixes lib slf req stream
  defines "out \<equiv> generate_content_async lib slf req stream"
  assumes decodes: "loads lib ''{}'' = Inr (JObj [])"
    and accepted: "function_call_error lib (getattr (fo_name f) (Some '''')) (JObj []) = None"
    and entry: "tc_function tc = Present f"
    and missing: "fo_arguments f = Absent"
  shows "tool_call_step lib tc s =
           s\<lparr>l_parts := l_parts s @
                [Part_function_call (getattr (fo_name f) (Some '''')) (JObj [])]\<rparr> \<and>
         (contents req \<noteq> [] \<and> (\<forall>t \<in> set (supplied_tools req). function_declarations t \<noteq> []) \<and>
          client slf (request_payload slf req) = Inr c \<and>
          choices c = Present chs \<and> ch \<in> set chs \<and> ch_message ch = Present msg \<and>
          vm_tool_calls msg = Present tcs \<and> tc \<in> set tcs \<longrightarrow>
            raised out = None \<and>
            (\<exists>r. yielded out = [r] \<and>
                 Part_function_call (getattr (fo_name f) (Some '''')) (JObj [])
                   \<in> set (parts (content r))))"
proof -
  have part: "function_call_part lib tc =
              Some (Part_function_call (getattr (fo_name f) (Some '''')) (JObj []))"
    using decodes accepted entry missing
    by (simp add: function_call_part_def json_loads_def)
  have nolog: "tool_call_log lib tc = None"
    using decodes accepted entry missing
    by (simp add: tool_call_log_def json_loads_def)
  have step: "tool_call_step lib tc s =
              s\<lparr>l_parts := l_parts s @
                   [Part_function_call (getattr (fo_name f) (Some '''')) (JObj [])]\<rparr>"
    by (simp add: tool_call_step_eq part nolog)
  have top: "raised out = None \<and>
             (\<exists>r. yielded out = [r] \<and>
                  Part_function_call (getattr (fo_name f) (Some '''')) (JObj [])
                    \<in> set (parts (content r)))"
    if h: "contents req \<noteq> []"
      and d: "\<forall>t \<in> set (supplied_tools req). function_declarations t \<noteq> []"
      and a: "client slf (request_payload slf req) = Inr c"
      and c: "choices c = Present chs" "ch \<in> set chs" "ch_message ch = Present msg"
        "vm_tool_calls msg = Present tcs" "tc \<in> set tcs"
  proof -
    from d have t: "list_all has_declaration (supplied_tools req)"
      by (simp add: list_all_iff has_declaration_def)
    from h t a have gen: "raised out = None \<and>
        yielded out = [\<lparr>content = \<lparr>role = ''model'',
                                   parts = concat (map (choice_parts lib) (response_choices c))\<rparr>,
                        partial = False\<rparr>]"
      unfolding out_def by (simp add: gen_called)
    have "Part_function_call (getattr (fo_name f) (Some '''')) (JObj [])
            \<in> set (List.map_filter (function_call_part lib) tcs)"
      using c(5) part by (force simp: List.map_filter_def)
    then have "Part_function_call (getattr (fo_name f) (Some '''')) (JObj [])
            \<in> set (choice_parts lib ch)"
      using c(3,4) by (simp add: choice_parts_def tool_call_entries_def)
    then have "Part_function_call (getattr (fo_name f) (Some '''')) (JObj [])
            \<in> set (concat (map (choice_parts lib) (response_choices c)))"
      using c(1,2) by (auto simp: response_choices_def)
    with gen show ?thesis by simp
  qed
  show ?thesis
    using step top by blast
qed

theorem C10_missing_arguments_default_witness:
  "loads checking_lib ''{}'' = Inr (JObj []) \<and>
   fo_arguments \<lparr>fo_name = Present ''get_current_time'', fo_arguments = Absent\<rparr> = Absent \<and>
   contents example_request \<noteq> [] \<and>
   supplied_tools example_request = [get_weather_tool] \<and>
   function_declarations get_weather_tool \<noteq> [] \<and>
   client answering_adapter (request_payload answering_adapter example_request) =
     Inr example_completion \<and>
   raised (generate_content_async checking_lib answering_adapter example_request False) = None \<and>
   (\<exists>r. yielded (generate_content_async checking_lib answering_adapter example_request False) =
          [r] \<and>
        Part_function_call (Some ''get_current_time'') (JObj []) \<in> set (parts (content r))) \<and>
   l_parts (tool_call_step checking_lib bare_call (enter answering_adapter example_request)) =
     [Part_function_call (Some ''get_current_time'') (JObj [])] \<and>
   log_records (tool_call_step checking_lib bare_call (enter answering_adapter example_request)) = []"
proof -
  have d: "loads checking_lib ''{}'' = Inr (JObj [])"
    by (simp add: checking_lib_def example_loads_def)
  have a: "function_call_error checking_lib
             (getattr (fo_name \<lparr>fo_name = Present ''get_current_time'', fo_arguments = Absent\<rparr>)
                (Some '''')) (JObj []) = None"
    by (simp add: checking_lib_def)
  have e: "tc_function bare_call =
             Present \<lparr>fo_name = Present ''get_current_time'', fo_arguments = Absent\<rparr>"
    by (simp add: bare_call_def)
  have m: "fo_arguments \<lparr>fo_name = Present ''get_current_time'', fo_arguments = Absent\<rparr> = Absent"
    by simp
  have n: "getattr (fo_name \<lparr>fo_name = Present ''get_current_time'', fo_arguments = Absent\<rparr>)
             (Some '''') = Some ''get_current_time''"
    by simp
  have h: "contents example_request \<noteq> []"
    by (simp add: example_request_def)
  have t: "\<forall>t \<in> set (supplied_tools example_request). function_declarations t \<noteq> []"
    by (simp add: supplied_tools_def example_request_def get_weather_tool_def)
  have st: "supplied_tools example_request = [get_weather_tool]"
    by (simp add: supplied_tools_def example_request_def)
  have fd: "function_declarations get_weather_tool \<noteq> []"
    by (simp add: get_weather_tool_def)
  have k: "client answering_adapter (request_payload answering_adapter example_request) =
             Inr example_completion"
    by (simp add: answering_adapter_def)
  have c1: "choices example_completion =
              Present [\<lparr>ch_message = Present \<lparr>vm_content = Present ''Hello'',
                                              vm_tool_calls =
                                                Present [weather_call, malformed_call,
                                                         bare_call]\<rparr>\<rparr>,
                       \<lparr>ch_message = Absent\<rparr>,
                       \<lparr>ch_message = Present \<lparr>vm_content = PyNone, vm_tool_calls = Absent\<rparr>\<rparr>]"
    by (simp add: example_completion_def)
  have c2: "\<lparr>ch_message = Present \<lparr>vm_content = Present ''Hello'',
                                   vm_tool_calls =
                                     Present [weather_call, malformed_call, bare_call]\<rparr>\<rparr>
            \<in> set [\<lparr>ch_message = Present \<lparr>vm_content = Present ''Hello'',
                                           vm_tool_calls =
                                             Present [weather_call, malformed_call,
                                                      bare_call]\<rparr>\<rparr>,
                    \<lparr>ch_message = Absent\<rparr>,
                    \<lparr>ch_message = Present \<lparr>vm_content = PyNone, vm_tool_calls = Absent\<rparr>\<rparr>]"
    by simp
  have c3: "ch_message \<lparr>ch_message = Present \<lparr>vm_content = Present ''Hello'',
                                              vm_tool_calls =
                                                Present [weather_call, malformed_call,
                                                         bare_call]\<rparr>\<rparr> =
            Present \<lparr>vm_content = Present ''Hello'',
                     vm_tool_calls = Present [weather_call, malformed_call, bare_call]\<rparr>"
    by simp
  have c4: "vm_tool_calls \<lparr>vm_content = Present ''Hello'',
                           vm_tool_calls = Present [weather_call, malformed_call, bare_call]\<rparr> =
            Present [weather_call, malformed_call, bare_call]"
    by simp
  have c5: "bare_call \<in> set [weather_call, malformed_call, bare_call]"
    by simp
  note inst = C10_missing_arguments_default [OF d a e m,
      where s = "enter answering_adapter example_request" and slf = answering_adapter
        and req = example_request and stream = False and c = example_completion]
  note whole = inst [THEN conjunct2, THEN mp,
      OF conjI [OF h conjI [OF t conjI [OF k conjI [OF c1 conjI [OF c2 conjI [OF c3
           conjI [OF c4 c5]]]]]]]]
  have r1: "raised (generate_content_async checking_lib answering_adapter example_request
                      False) = None"
    by (rule whole [THEN conjunct1])
  have r2: "\<exists>r. yielded (generate_content_async checking_lib answering_adapter example_request
                            False) = [r] \<and>
                Part_function_call (Some ''get_current_time'') (JObj [])
                  \<in> set (parts (content r))"
    using whole [THEN conjunct2] unfolding n .
  have r3: "l_parts (tool_call_step checking_lib bare_call
                       (enter answering_adapter example_request)) =
              [Part_function_call (Some ''get_current_time'') (JObj [])] \<and>
            log_records (tool_call_step checking_lib bare_call
                           (enter answering_adapter example_request)) = []"
    unfolding inst [THEN conjunct1] by (simp add: enter_def)
  show ?thesis
    by (intro conjI d m h st fd k r1 r2 conjunct1 [OF r3] conjunct2 [OF r3])
qed

section \<open>Arguments of tool calls\<close>

lemma decoded_arguments_attached:
  assumes "tc_function tc = Present f"
    and "json_loads lib (getattr (fo_arguments f) (Some ''{}'')) = Inr a"
    and "function_call_error lib (getattr (fo_name f) (Some '''')) a = None"
  shows "tool_call_step lib tc s =
           s\<lparr>l_parts := l_parts s @ [Part_function_call (getattr (fo_name f) (Some '''')) a]\<rparr>"
  using assms by (simp add: tool_call_step_eq function_call_part_def tool_call_log_def)

lemma map_filter_append:
  "List.map_filter g (xs @ ys) = List.map_filter g xs @ List.map_filter g ys"
  by (simp add: List.map_filter_def)

lemma failed_entry_skipped:
  assumes "tc_function tc = Present f"
    and "json_loads lib (getattr (fo_arguments f) (Some ''{}'')) = Inl e"
  shows "l_parts (tool_calls_loop lib (before @ tc # after) s) =
           l_parts (tool_calls_loop lib (before @ after) s) \<and>
         log_records (tool_calls_loop lib (before @ tc # after) s) =
           log_records (tool_calls_loop lib before s) @
           LogError (''Error parsing tool call: '' @ e) #
           List.map_filter (tool_call_log lib) after"
proof -
  have "function_call_part lib tc = None"
    using assms by (simp add: function_call_part_def)
  moreover have "tool_call_log lib tc = Some (LogError (''Error parsing tool call: '' @ e))"
    using assms by (simp add: tool_call_log_def)
  ultimately show ?thesis
    by (simp add: tool_calls_loop_eq map_filter_append)
qed

lemma greeting_loop_never_decodes:
  "greeting_tool_calls_loop (lib\<lparr>loads := d\<rparr>) tcs s = greeting_tool_calls_loop lib tcs s \<and>
   log_records (greeting_tool_calls_loop lib tcs s) = log_records s"
proof -
  have "greeting_function_call_part (lib\<lparr>loads := d\<rparr>) = greeting_function_call_part lib"
    by (rule ext) (simp add: greeting_function_call_part_def split: attr.splits)
  then show ?thesis
    by (simp add: greeting_tool_calls_loop_eq)
qed

text \<open>
  Claim C3. The vendor answers with one choice carrying two tool calls, one
  with the arguments \<^verbatim>\<open>{"city":"NY"}\<close> and one with \<^verbatim>\<open>{bad\<close>. The adapter
  of multi\_tool\_agent decodes the arguments: it yields the one function-call
  part with the mapping and logs the entry that does not decode. The adapter
  of greeting\_agent decodes nothing: with a \<^verbatim>\<open>FunctionCall\<close> that accepts
  mappings only it drops both entries, the valid one too; with one that
  accepts everything it attaches both raw strings, the malformed one too; in
  both cases it logs nothing.
\<close>

theorem C3_greeting_agent_attaches_arguments_undecoded:
  \<open>yielded (greeting_generate_content_async checking_lib two_calls_adapter plain_request False) =
     [\<lparr>content = \<lparr>role = ''model'', parts = []\<rparr>, partial = False\<rparr>] \<and>
   log_records (final (greeting_generate_content_async checking_lib two_calls_adapter
                         plain_request False)) = [] \<and>
   yielded (greeting_generate_content_async keeping_lib two_calls_adapter plain_request False) =
     [\<lparr>content = \<lparr>role = ''model'',
                   parts = [Part_function_call (Some ''get_weather'') (JStr ''{"city":"NY"}''),
                            Part_function_call (Some ''get_weather'') (JStr ''{bad'')]\<rparr>,
       partial = False\<rparr>] \<and>
   log_records (final (greeting_generate_content_async keeping_lib two_calls_adapter
                         plain_request False)) = [] \<and>
   yielded (generate_content_async checking_lib two_calls_adapter plain_request False) =
     [\<lparr>content = \<lparr>role = ''model'',
                   parts = [Part_function_call (Some ''get_weather'')
                              (JObj [(''city'', JStr ''NY'')])]\<rparr>,
       partial = False\<rparr>] \<and>
   log_records (final (generate_content_async checking_lib two_calls_adapter
                         plain_request False)) =
     [LogError (''Error parsing tool call: '' @
                ''Expecting property name enclosed in double quotes: line 1 column 2 (char 1)'')]\<close>
proof -
  have g1: \<open>greeting_function_call_part checking_lib weather_call = None\<close>
    by (simp add: greeting_function_call_part_def greeting_fn_args_def weather_call_def
        checking_lib_def)
  have g2: \<open>greeting_function_call_part checking_lib malformed_call = None\<close>
    by (simp add: greeting_function_call_part_def greeting_fn_args_def malformed_call_def
        checking_lib_def)
  have g3: \<open>greeting_function_call_part keeping_lib weather_call =
              Some (Part_function_call (Some ''get_weather'') (JStr ''{"city":"NY"}''))\<close>
    by (simp add: greeting_function_call_part_def greeting_fn_args_def weather_call_def
        keeping_lib_def)
  have g4: \<open>greeting_function_call_part keeping_lib malformed_call =
              Some (Part_function_call (Some ''get_weather'') (JStr ''{bad''))\<close>
    by (simp add: greeting_function_call_part_def greeting_fn_args_def malformed_call_def
        keeping_lib_def)
  have greeting: "greeting_generate_content_async lib two_calls_adapter plain_request False =
      \<lparr>final = (enter two_calls_adapter plain_request)
                 \<lparr>l_messages := [\<lparr>msg_role = ''user'', msg_content = ''Hi''\<rparr>],
                  vendor_calls := [\<lparr>kw_model = ''Meta-Llama-3.3-70B-Instruct'',
                                     kw_messages = [\<lparr>msg_role = ''user'', msg_content = ''Hi''\<rparr>],
                                     kw_tools = None, kw_tool_choice = None\<rparr>],
                  l_parts := List.map_filter (greeting_function_call_part lib)
                               [weather_call, malformed_call]\<rparr>,
       yielded = [\<lparr>content = \<lparr>role = ''model'',
                              parts = List.map_filter (greeting_function_call_part lib)
                                        [weather_call, malformed_call]\<rparr>,
                   partial = False\<rparr>],
       raised = None\<rparr>" for lib
    by (simp add: greeting_generate_content_async_def Let_def enter_def plain_request_def
        content_text_of_def Part_from_text_def greeting_call_samba_def two_calls_adapter_def
        two_calls_completion_def greeting_choice_step_def greeting_tool_calls_loop_eq
        del: greeting_tool_calls_loop.simps)
  have h: "contents plain_request \<noteq> []"
    by (simp add: plain_request_def)
  have t: "list_all has_declaration (supplied_tools plain_request)"
    by (simp add: supplied_tools_def plain_request_def)
  have a: "client two_calls_adapter (request_payload two_calls_adapter plain_request) =
             Inr two_calls_completion"
    by (simp add: two_calls_adapter_def)
  have f1: \<open>function_call_part checking_lib weather_call =
              Some (Part_function_call (Some ''get_weather'') (JObj [(''city'', JStr ''NY'')]))\<close>
    by (simp add: function_call_part_def json_loads_def weather_call_def checking_lib_def
        example_loads_def)
  have f2: "function_call_part checking_lib malformed_call = None"
    by (simp add: function_call_part_def json_loads_def malformed_call_def checking_lib_def
        example_loads_def)
  have l1: "tool_call_log checking_lib weather_call = None"
    by (simp add: tool_call_log_def json_loads_def weather_call_def checking_lib_def
        example_loads_def)
  have l2: "tool_call_log checking_lib malformed_call =
              Some (LogError (''Error parsing tool call: '' @
                ''Expecting property name enclosed in double quotes: line 1 column 2 (char 1)''))"
    by (simp add: tool_call_log_def json_loads_def malformed_call_def checking_lib_def
        example_loads_def)
  have multi: "generate_content_async checking_lib two_calls_adapter plain_request False =
      \<lparr>final = (after_conversion two_calls_adapter plain_request)
                 \<lparr>vendor_calls := [request_payload two_calls_adapter plain_request],
                  l_parts := concat (map (choice_parts checking_lib)
                                       (response_choices two_calls_completion)),
                  log_records := concat (map (choice_logs checking_lib)
                                           (response_choices two_calls_completion))\<rparr>,
       yielded = [\<lparr>content = \<lparr>role = ''model'',
                              parts = concat (map (choice_parts checking_lib)
                                                (response_choices two_calls_completion))\<rparr>,
                   partial = False\<rparr>],
       raised = None\<rparr>"
    using h t a by (simp add: gen_called)
  have entries: "response_choices two_calls_completion =
                   [\<lparr>ch_message = Present \<lparr>vm_content = PyNone,
                                           vm_tool_calls =
                                             Present [weather_call, malformed_call]\<rparr>\<rparr>]"
    by (simp add: response_choices_def two_calls_completion_def)
  show ?thesis
    unfolding greeting multi entries
    by (simp add: g1 g2 g3 g4 f1 f2 l1 l2 choice_parts_def choice_logs_def text_parts_cases
        tool_call_entries_def enter_def)
qed

section \<open>The frame\<close>

text \<open>
  Claim C9. \<open>generate_content_async\<close> leaves its inputs as they were: when it
  has returned or raised, the request holds the same contents and the same
  tools, and the adapter the same model identifier and the same client. No
  loop of the method writes to either object.
\<close>

theorem C9_request_and_adapter_unchanged:
  fixes lib slf req stream
  defines "out \<equiv> generate_content_async lib slf req stream"
  shows "request (final out) = req \<and> self (final out) = slf \<and>
         contents (request (final out)) = contents req \<and>
         tools (request (final out)) = tools req \<and>
         model_id (self (final out)) = model_id slf \<and>
         client (self (final out)) = client slf \<and>
         (\<forall>cs s. request (messages_loop cs s) = request s \<and> self (messages_loop cs s) = self s) \<and>
         (\<forall>ts s. request (fst (api_tools_loop ts s)) = request s \<and>
                  self (fst (api_tools_loop ts s)) = self s) \<and>
         (\<forall>s. request (fst (call_samba s)) = request s \<and> self (fst (call_samba s)) = self s) \<and>
         (\<forall>chs s. request (choices_loop lib chs s) = request s \<and>
                   self (choices_loop lib chs s) = self s)"
proof -
  have top: "request (final out) = req \<and> self (final out) = slf"
  proof (cases "contents req = []")
    case True
    then show ?thesis
      unfolding out_def by (simp add: gen_empty enter_def)
  next
    case False
    show ?thesis
    proof (cases "list_all has_declaration (supplied_tools req)")
      case True
      with False show ?thesis
        unfolding out_def
        by (simp add: gen_called after_conversion_def enter_def split: sum.splits)
    next
      case False
      with \<open>contents req \<noteq> []\<close> show ?thesis
        unfolding out_def by (simp add: gen_tools_error after_conversion_def enter_def)
    qed
  qed
  then show ?thesis
    by (simp add: messages_loop_eq api_tools_loop_eq choices_loop_eq call_samba_def Let_def)
qed

theorem C9_request_and_adapter_unchanged_witness:
  "request (final (generate_content_async checking_lib answering_adapter example_request False)) =
     example_request \<and>
   request (final (generate_content_async checking_lib failing_adapter plain_request False)) =
     plain_request \<and>
   self (final (generate_content_async checking_lib failing_adapter plain_request False)) =
     failing_adapter \<and>
   request (final (generate_content_async checking_lib answering_adapter empty_request False)) =
     empty_request"
  using C9_request_and_adapter_unchanged [of checking_lib answering_adapter example_request False]
    C9_request_and_adapter_unchanged [of checking_lib failing_adapter plain_request False]
    C9_request_and_adapter_unchanged [of checking_lib answering_adapter empty_request False]
  by simp

end
